theory Spec2Isabelle
  imports Complex_Main
begin

section \<open>Data model\<close>

text \<open>
  The script \<^verbatim>\<open>process_data.py\<close> works on a pandas dataframe restricted to the
  five columns \<^verbatim>\<open>c_abrv\<close>, \<^verbatim>\<open>caseno\<close>, \<^verbatim>\<open>v6\<close>, \<^verbatim>\<open>v82\<close> and \<^verbatim>\<open>v155\<close>.
  A dataframe is modelled as the list of its rows, in row order.

  A survey answer is a cell that holds a category label (a string), a number, or the
  missing value. Python floats are idealised as exact rationals; the missing value is
  \<open>NaN\<close>. The country code is a string and the case number an integer, as the data
  model of the survey has them, so that \<^verbatim>\<open>==\<close> on these two columns is plain equality.
\<close>

datatype cell = Str string | PyInt int | PyFloat rat | NaN

record row =
  c_abrv :: string
  caseno :: int
  v6 :: cell
  v82 :: cell
  v155 :: cell

type_synonym dataframe = "row list"

datatype py_error = KeyError | ValueError | IndexError | ZeroDivisionError | NameError

section \<open>Python's \<^verbatim>\<open>int()\<close> on a cell\<close>

text \<open>
  \<^verbatim>\<open>int(x)\<close> truncates a float towards zero, raises \<^verbatim>\<open>ValueError\<close> on the missing
  value, and parses a string: surrounding whitespace is stripped, one sign is allowed,
  and the rest must be decimal digits, where single underscores may separate digits.
  Strings are ASCII here.
\<close>

definition is_space :: "char \<Rightarrow> bool" where
  "is_space c = (let n = (of_char c :: nat) in (9 \<le> n \<and> n \<le> 13) \<or> (28 \<le> n \<and> n \<le> 32))"

definition is_digit :: "char \<Rightarrow> bool" where
  "is_digit c = (let n = (of_char c :: nat) in 48 \<le> n \<and> n \<le> 57)"

definition digit_val :: "char \<Rightarrow> nat" where
  "digit_val c = of_char c - 48"

definition strip :: "string \<Rightarrow> string" where
  "strip s = rev (dropWhile is_space (rev (dropWhile is_space s)))"

fun digits :: "nat \<Rightarrow> string \<Rightarrow> nat option" where
  "digits acc [] = Some acc"
| "digits acc (c # cs) =
     (if is_digit c then digits (10 * acc + digit_val c) cs
      else if c = CHR ''_'' then
        (case cs of [] \<Rightarrow> None
         | d # _ \<Rightarrow> if is_digit d then digits acc cs else None)
      else None)"

definition unsigned :: "string \<Rightarrow> nat option" where
  "unsigned s = (case s of [] \<Rightarrow> None
                 | d # _ \<Rightarrow> if is_digit d then digits 0 s else None)"

definition int_of_string :: "string \<Rightarrow> int option" where
  "int_of_string s =
     (case strip s of
        [] \<Rightarrow> None
      | c # cs \<Rightarrow>
          if c = CHR ''-'' then map_option (\<lambda>n. - int n) (unsigned cs)
          else if c = CHR ''+'' then map_option int (unsigned cs)
          else map_option int (unsigned (c # cs)))"

definition py_int :: "cell \<Rightarrow> py_error + int" where
  "py_int x =
     (case x of
        Str s \<Rightarrow> (case int_of_string s of None \<Rightarrow> Inl ValueError | Some i \<Rightarrow> Inr i)
      | PyInt i \<Rightarrow> Inr i
      | PyFloat q \<Rightarrow> Inr (if 0 \<le> q then \<lfloor>q\<rfloor> else \<lceil>q\<rceil>)
      | NaN \<Rightarrow> Inl ValueError)"

section \<open>Score mappers\<close>

text \<open>
  \<^verbatim>\<open>category_dic\<close> of \<^verbatim>\<open>a_adp\<close>. Its keys are strings, so a cell that is not a string
  is never a key.
\<close>

definition category_dic :: "cell \<rightharpoonup> int" where
  "category_dic =
     [Str ''agree strongly'' \<mapsto> 1,
      Str ''agree'' \<mapsto> 2,
      Str ''neither agree nor disagree'' \<mapsto> 3,
      Str ''disagree'' \<mapsto> 4,
      Str ''disagree strongly'' \<mapsto> 5]"

text \<open>
  \<^verbatim>\<open>a_adp\<close>: the lookup raises \<^verbatim>\<open>KeyError\<close> on an unknown key, and the handler
  turns every exception into \<^verbatim>\<open>None\<close>.
\<close>

definition a_adp :: "row \<Rightarrow> rat option" where
  "a_adp element =
     (case category_dic (v82 element) of
        None \<Rightarrow> None
      | Some int_value \<Rightarrow> Some (of_int (- (int_value - 3)) / 2))"

text \<open>
  \<^verbatim>\<open>a_div\<close>: the two literal endpoints are tested first, every other value goes
  through \<^verbatim>\<open>int()\<close>, and the handler turns its exception into \<^verbatim>\<open>None\<close>.
\<close>

definition a_div :: "row \<Rightarrow> rat option" where
  "a_div element =
     (case (if v155 element = Str ''never'' then Inr 1
            else if v155 element = Str ''always'' then Inr 10
            else py_int (v155 element)) of
        Inl _ \<Rightarrow> None
      | Inr int_value \<Rightarrow> Some ((of_int int_value - 5.5) / 4.5))"

section \<open>Respondent classifier\<close>

text \<open>
  The body of \<^verbatim>\<open>process_participant\<close> once the row is selected: the religiosity
  flag from \<^verbatim>\<open>v6\<close>, both scores, and \<^verbatim>\<open>None\<close> when the flag is undetermined.
\<close>

definition religious_flag :: "cell \<Rightarrow> bool option" where
  "religious_flag religiousness =
     (if religiousness = Str ''not at all important'' \<or> religiousness = Str ''not important''
      then Some False
      else if religiousness = Str ''quite important'' \<or> religiousness = Str ''very important''
      then Some True
      else None)"

type_synonym participant = "bool \<times> rat option \<times> rat option"

definition participant_tuple :: "row \<Rightarrow> participant option" where
  "participant_tuple dataframe_row =
     (let religious = religious_flag (v6 dataframe_row);
          action_adp = a_adp dataframe_row;
          action_div = a_div dataframe_row
      in case religious of
           None \<Rightarrow> None
         | Some b \<Rightarrow> Some (b, action_adp, action_div))"

text \<open>
  \<^verbatim>\<open>dataframe[dataframe['caseno'] == caseno].iloc[0]\<close> takes the first row with the
  given case number and raises \<^verbatim>\<open>IndexError\<close> when there is none.
\<close>

definition process_participant :: "dataframe \<Rightarrow> int \<Rightarrow> py_error + participant option" where
  "process_participant dataframe cn =
     (case filter (\<lambda>r. caseno r = cn) dataframe of
        [] \<Rightarrow> Inl IndexError
      | dataframe_row # _ \<Rightarrow> Inr (participant_tuple dataframe_row))"

section \<open>Country aggregator\<close>

record counters =
  n_religious :: nat
  n_nonreligious :: nat
  n_rel_adp :: nat
  n_nonrel_adp :: nat
  n_rel_div :: nat
  n_nonrel_div :: nat
  sum_a_adp_rel :: rat
  sum_a_adp_nonrel :: rat
  sum_a_div_rel :: rat
  sum_a_div_nonrel :: rat

definition zero_counters :: counters where
  "zero_counters =
     \<lparr>n_religious = 0, n_nonreligious = 0, n_rel_adp = 0, n_nonrel_adp = 0,
      n_rel_div = 0, n_nonrel_div = 0, sum_a_adp_rel = 0, sum_a_adp_nonrel = 0,
      sum_a_div_rel = 0, sum_a_div_nonrel = 0\<rparr>"

text \<open>One pass of the loop body on the classifier's answer \<^verbatim>\<open>tuple_\<close>.\<close>

definition add_adp_rel :: "rat option \<Rightarrow> counters \<Rightarrow> counters" where
  "add_adp_rel a s = (case a of None \<Rightarrow> s
     | Some x \<Rightarrow> s\<lparr>n_rel_adp := n_rel_adp s + 1, sum_a_adp_rel := sum_a_adp_rel s + x\<rparr>)"

definition add_div_rel :: "rat option \<Rightarrow> counters \<Rightarrow> counters" where
  "add_div_rel d s = (case d of None \<Rightarrow> s
     | Some x \<Rightarrow> s\<lparr>n_rel_div := n_rel_div s + 1, sum_a_div_rel := sum_a_div_rel s + x\<rparr>)"

definition add_adp_nonrel :: "rat option \<Rightarrow> counters \<Rightarrow> counters" where
  "add_adp_nonrel a s = (case a of None \<Rightarrow> s
     | Some x \<Rightarrow> s\<lparr>n_nonrel_adp := n_nonrel_adp s + 1, sum_a_adp_nonrel := sum_a_adp_nonrel s + x\<rparr>)"

definition add_div_nonrel :: "rat option \<Rightarrow> counters \<Rightarrow> counters" where
  "add_div_nonrel d s = (case d of None \<Rightarrow> s
     | Some x \<Rightarrow> s\<lparr>n_nonrel_div := n_nonrel_div s + 1, sum_a_div_nonrel := sum_a_div_nonrel s + x\<rparr>)"

fun count_tuple :: "counters \<Rightarrow> participant option \<Rightarrow> counters" where
  "count_tuple s None = s"
| "count_tuple s (Some (religious, a, d)) =
     (if religious
      then add_div_rel d (add_adp_rel a (s\<lparr>n_religious := n_religious s + 1\<rparr>))
      else add_div_nonrel d (add_adp_nonrel a (s\<lparr>n_nonreligious := n_nonreligious s + 1\<rparr>)))"

text \<open>
  The loop \<^verbatim>\<open>for i in range(0, n_row)\<close>: row \<open>i\<close> of the country's frame \<open>df\<close> gives a
  case number, and the classifier looks that number up in \<open>df\<close> again.
\<close>

fun country_loop :: "dataframe \<Rightarrow> row list \<Rightarrow> counters \<Rightarrow> py_error + counters" where
  "country_loop df [] s = Inr s"
| "country_loop df (r # rs) s =
     (case process_participant df (caseno r) of
        Inl e \<Rightarrow> Inl e
      | Inr tuple_ \<Rightarrow> country_loop df rs (count_tuple s tuple_))"

text \<open>Python's \<^verbatim>\<open>/\<close> on a sum and a counter.\<close>

definition py_div :: "rat \<Rightarrow> nat \<Rightarrow> py_error + rat" where
  "py_div x n = (if n = 0 then Inl ZeroDivisionError else Inr (x / of_nat n))"

record aggregate =
  rel :: nat
  nonrel :: nat
  a_adp_rel :: rat
  a_adp_nonrel :: rat
  a_div_rel :: rat
  a_div_nonrel :: rat

text \<open>The returned dictionary; its four quotients are evaluated in key order.\<close>

definition country_dict :: "counters \<Rightarrow> py_error + aggregate" where
  "country_dict s =
     (case py_div (sum_a_adp_rel s) (n_rel_adp s) of Inl e \<Rightarrow> Inl e | Inr m1 \<Rightarrow>
      case py_div (sum_a_adp_nonrel s) (n_nonrel_adp s) of Inl e \<Rightarrow> Inl e | Inr m2 \<Rightarrow>
      case py_div (sum_a_div_rel s) (n_rel_div s) of Inl e \<Rightarrow> Inl e | Inr m3 \<Rightarrow>
      case py_div (sum_a_div_nonrel s) (n_nonrel_div s) of Inl e \<Rightarrow> Inl e | Inr m4 \<Rightarrow>
        Inr \<lparr>rel = n_religious s, nonrel = n_nonreligious s,
             a_adp_rel = m1, a_adp_nonrel = m2, a_div_rel = m3, a_div_nonrel = m4\<rparr>)"

definition country_frame :: "dataframe \<Rightarrow> string \<Rightarrow> dataframe" where
  "country_frame dataframe country = filter (\<lambda>r. c_abrv r = country) dataframe"

definition process_country :: "dataframe \<Rightarrow> string \<Rightarrow> py_error + aggregate" where
  "process_country dataframe country =
     (let df = country_frame dataframe country
      in case country_loop df df zero_counters of
           Inl e \<Rightarrow> Inl e
         | Inr s \<Rightarrow> country_dict s)"

section \<open>Driver\<close>

text \<open>
  \<^verbatim>\<open>df['c_abrv'].unique()\<close> lists the distinct values in the order of their first
  appearance.
\<close>

fun unique_from :: "'a list \<Rightarrow> 'a list \<Rightarrow> 'a list" where
  "unique_from seen [] = []"
| "unique_from seen (x # xs) =
     (if x \<in> set seen then unique_from seen xs else x # unique_from (x # seen) xs)"

definition unique :: "'a list \<Rightarrow> 'a list" where
  "unique xs = unique_from [] xs"

text \<open>
  \<^verbatim>\<open>dictionary.update({country: dict_})\<close> on an insertion-ordered dictionary: a known
  key keeps its place and gets the new value, a new key goes to the end.
\<close>

fun dict_update :: "('k \<times> 'v) list \<Rightarrow> 'k \<Rightarrow> 'v \<Rightarrow> ('k \<times> 'v) list" where
  "dict_update [] k v = [(k, v)]"
| "dict_update ((k', v') # kvs) k v =
     (if k' = k then (k, v) # kvs else (k', v') # dict_update kvs k v)"

fun country_dictionary ::
  "dataframe \<Rightarrow> string list \<Rightarrow> (string \<times> aggregate) list \<Rightarrow> py_error + (string \<times> aggregate) list"
where
  "country_dictionary df [] dictionary = Inr dictionary"
| "country_dictionary df (country # cs) dictionary =
     (case process_country df country of
        Inl e \<Rightarrow> Inl e
      | Inr dict_ \<Rightarrow> country_dictionary df cs (dict_update dictionary country dict_))"

datatype field = S string | N nat | Q rat

definition keys :: "string list" where
  "keys = [''rel'', ''nonrel'', ''a_adp_rel'', ''a_adp_nonrel'', ''a_div_rel'', ''a_div_nonrel'']"

definition items :: "aggregate \<Rightarrow> field list" where
  "items d = [N (rel d), N (nonrel d), Q (a_adp_rel d), Q (a_adp_nonrel d),
              Q (a_div_rel d), Q (a_div_nonrel d)]"

text \<open>
  The rows handed to \<^verbatim>\<open>csv.writer\<close>. The header is built from the keys of
  \<^verbatim>\<open>dictionary[country]\<close>, where \<^verbatim>\<open>country\<close> is the variable left by the first loop:
  with no country at all the name is unbound.
\<close>

definition main :: "dataframe \<Rightarrow> py_error + field list list" where
  "main df =
     (case country_dictionary df (unique (map c_abrv df)) [] of
        Inl e \<Rightarrow> Inl e
      | Inr dictionary \<Rightarrow>
          if dictionary = [] then Inl NameError
          else Inr ((S ''country'' # map S keys)
                    # map (\<lambda>(country, d). S country # items d) dictionary))"

section \<open>The aggregate in closed form\<close>

text \<open>
  The row that \<^verbatim>\<open>process_participant\<close> selects when it is called with the case number
  of row \<open>r\<close>: the first row of the frame with that case number.
\<close>

definition first_match :: "dataframe \<Rightarrow> row \<Rightarrow> row" where
  "first_match df r = (case find (\<lambda>q. caseno q = caseno r) df of None \<Rightarrow> r | Some q \<Rightarrow> q)"

text \<open>
  The aggregate as the specification words it, on the list of the classifier's answers
  (\<open>None\<close> for an excluded respondent): each group counter counts every classified
  respondent of the group, and each of the four means is the sum over the count of the
  non-missing scores of one group and one score type. The quotient is Python's, so an
  empty list of scores is a \<^verbatim>\<open>ZeroDivisionError\<close>.
\<close>

definition group_count :: "bool \<Rightarrow> participant option list \<Rightarrow> nat" where
  "group_count g ts = length (filter (\<lambda>t. map_option fst t = Some g) ts)"

definition adp_scores :: "bool \<Rightarrow> participant option list \<Rightarrow> rat list" where
  "adp_scores g ts =
     List.map_filter
       (\<lambda>t. case t of None \<Rightarrow> None | Some (b, a, d) \<Rightarrow> if b = g then a else None) ts"

definition div_scores :: "bool \<Rightarrow> participant option list \<Rightarrow> rat list" where
  "div_scores g ts =
     List.map_filter
       (\<lambda>t. case t of None \<Rightarrow> None | Some (b, a, d) \<Rightarrow> if b = g then d else None) ts"

definition mean :: "rat list \<Rightarrow> py_error + rat" where
  "mean xs = py_div (sum_list xs) (length xs)"

definition spec_aggregate :: "participant option list \<Rightarrow> py_error + aggregate" where
  "spec_aggregate ts =
     (case mean (adp_scores True ts) of Inl e \<Rightarrow> Inl e | Inr m1 \<Rightarrow>
      case mean (adp_scores False ts) of Inl e \<Rightarrow> Inl e | Inr m2 \<Rightarrow>
      case mean (div_scores True ts) of Inl e \<Rightarrow> Inl e | Inr m3 \<Rightarrow>
      case mean (div_scores False ts) of Inl e \<Rightarrow> Inl e | Inr m4 \<Rightarrow>
        Inr \<lparr>rel = group_count True ts, nonrel = group_count False ts,
             a_adp_rel = m1, a_adp_nonrel = m2, a_div_rel = m3, a_div_nonrel = m4\<rparr>)"

text \<open>
  A row of the country contributes to the mean of group \<open>g\<close> and of the adoption score
  (\<open>adp = True\<close>) or the divorce score (\<open>adp = False\<close>) when its own answers put it in
  the group and give that score.
\<close>

definition contributes :: "bool \<Rightarrow> bool \<Rightarrow> row \<Rightarrow> bool" where
  "contributes g adp r =
     (case participant_tuple r of
        None \<Rightarrow> False
      | Some (b, a, d) \<Rightarrow> b = g \<and> (if adp then a \<noteq> None else d \<noteq> None))"

section \<open>Test frames\<close>

text \<open>
  The scenario of the specification: country ES with a religious respondent
  (adoption ``agree'', divorce ``never''), a non-religious one (adoption missing,
  divorce 5) and a third one with the answers \<open>u\<close>, \<open>a\<close>, \<open>d\<close>.
\<close>

definition es_frame :: "cell \<Rightarrow> cell \<Rightarrow> cell \<Rightarrow> dataframe" where
  "es_frame u a d =
     [\<lparr>c_abrv = ''ES'', caseno = 1, v6 = Str ''very important'', v82 = Str ''agree'',
        v155 = Str ''never''\<rparr>,
      \<lparr>c_abrv = ''ES'', caseno = 2, v6 = Str ''not important'', v82 = NaN, v155 = PyInt 5\<rparr>,
      \<lparr>c_abrv = ''ES'', caseno = 3, v6 = u, v82 = a, v155 = d\<rparr>]"

text \<open>
  Two countries in which every group has both scores; \<open>full_frame\<close> has distinct case
  numbers within each country, \<open>dup_frame\<close> repeats the case number 1 in ES.
\<close>

definition full_frame :: dataframe where
  "full_frame =
     [\<lparr>c_abrv = ''ES'', caseno = 1, v6 = Str ''very important'', v82 = Str ''agree'',
        v155 = Str ''never''\<rparr>,
      \<lparr>c_abrv = ''FR'', caseno = 1, v6 = Str ''quite important'', v82 = Str ''disagree'',
        v155 = PyFloat 3\<rparr>,
      \<lparr>c_abrv = ''ES'', caseno = 2, v6 = Str ''not important'', v82 = Str ''agree strongly'',
        v155 = PyInt 5\<rparr>,
      \<lparr>c_abrv = ''ES'', caseno = 3, v6 = Str ''dont know'', v82 = NaN, v155 = NaN\<rparr>,
      \<lparr>c_abrv = ''FR'', caseno = 2, v6 = Str ''not at all important'', v82 = Str ''agree'',
        v155 = Str ''always''\<rparr>]"

definition dup_frame :: dataframe where
  "dup_frame =
     [\<lparr>c_abrv = ''ES'', caseno = 1, v6 = Str ''very important'', v82 = Str ''agree'',
        v155 = Str ''never''\<rparr>,
      \<lparr>c_abrv = ''ES'', caseno = 2, v6 = Str ''not important'', v82 = Str ''agree strongly'',
        v155 = PyInt 5\<rparr>,
      \<lparr>c_abrv = ''ES'', caseno = 1, v6 = Str ''not important'', v82 = Str ''disagree'',
        v155 = Str ''always''\<rparr>]"

section \<open>Score mappers: results\<close>

lemma category_dic_Some:
  "category_dic x = Some k \<longleftrightarrow>
     (x = Str ''agree strongly'' \<and> k = 1) \<or> (x = Str ''agree'' \<and> k = 2) \<or>
     (x = Str ''neither agree nor disagree'' \<and> k = 3) \<or> (x = Str ''disagree'' \<and> k = 4) \<or>
     (x = Str ''disagree strongly'' \<and> k = 5)"
  by (auto simp: category_dic_def)

lemma category_dic_None:
  "category_dic x = None \<longleftrightarrow>
     x \<notin> {Str ''agree strongly'', Str ''agree'', Str ''neither agree nor disagree'',
          Str ''disagree'', Str ''disagree strongly''}"
  by (auto simp: category_dic_def)

lemmas int_parse_defs =
  py_int_def int_of_string_def strip_def is_space_def unsigned_def is_digit_def digit_val_def

lemma py_int_never: "py_int (Str ''never'') = Inl ValueError"
  by (simp add: int_parse_defs)

lemma py_int_always: "py_int (Str ''always'') = Inl ValueError"
  by (simp add: int_parse_defs)

lemma a_div_parsed:
  assumes "py_int (v155 r) = Inr v"
  shows "a_div r = Some ((of_int v - 5.5) / 4.5)"
proof -
  from assms have "v155 r \<noteq> Str ''never''" "v155 r \<noteq> Str ''always''"
    using py_int_never py_int_always by auto
  with assms show ?thesis by (simp add: a_div_def)
qed

lemma a_div_unparsed:
  assumes "py_int (v155 r) = Inl e" "v155 r \<noteq> Str ''never''" "v155 r \<noteq> Str ''always''"
  shows "a_div r = None"
  using assms by (simp add: a_div_def)

lemma a_adp_range: "a_adp r = Some x \<Longrightarrow> - 1 \<le> x \<and> x \<le> 1"
  by (auto simp: a_adp_def category_dic_def split: if_splits)

lemma a_div_range_on_scale:
  assumes "py_int (v155 r) = Inr v" "1 \<le> v" "v \<le> 10" "a_div r = Some x"
  shows "- 1 \<le> x \<and> x \<le> 1"
proof -
  from assms have x: "x = (of_int v - 5.5) / 4.5"
    using a_div_parsed [of r v] by simp
  from assms(2,3) have "(1::rat) \<le> of_int v" "of_int v \<le> (10::rat)"
    by simp_all
  with x show ?thesis by simp
qed

text \<open>
  Claim C2, on the code: the scores are meant to lie in \<open>[-1, 1]\<close> (so say the
  docstrings of both mappers), and \<open>a_adp\<close> keeps to it (\<open>a_adp_range\<close>), as does
  \<open>a_div\<close> on the answers 1 to 10 (\<open>a_div_range_on_scale\<close>). But \<open>a_div\<close> checks no
  range: the answer \<open>''11''\<close> parses as 11 and gives the score \<open>11/9\<close>, above 1, and the
  float answer \<open>0\<close> gives \<open>- 11/9\<close>, below \<open>- 1\<close>.
\<close>

theorem a_div_out_of_range:
  "a_div \<lparr>c_abrv = ''ES'', caseno = 1, v6 = NaN, v82 = NaN, v155 = Str ''11''\<rparr> = Some (11 / 9)
   \<and> \<not> (11 / 9 \<le> (1::rat))
   \<and> a_div \<lparr>c_abrv = ''ES'', caseno = 1, v6 = NaN, v82 = NaN, v155 = PyFloat 0\<rparr> = Some (- (11 / 9))
   \<and> \<not> (- 1 \<le> - (11 / 9 :: rat))"
  by (simp add: a_div_def int_parse_defs)

text \<open>
  Claim C3: in \<open>a_div\<close> the literal \<open>never\<close> gives \<open>- 1\<close> and the literal \<open>always\<close>
  gives \<open>1\<close>; an answer that \<^verbatim>\<open>int()\<close> reads as an integer \<open>v\<close> from 1 to 10 gives
  \<open>(v - 5.5) / 4.5\<close>; an answer that \<^verbatim>\<open>int()\<close> rejects and that is neither literal gives
  the missing score \<open>None\<close>.
\<close>

theorem a_div_cases:
  "(v155 r = Str ''never'' \<longrightarrow> a_div r = Some (- 1)) \<and>
   (v155 r = Str ''always'' \<longrightarrow> a_div r = Some 1) \<and>
   (\<forall>v. py_int (v155 r) = Inr v \<and> 1 \<le> v \<and> v \<le> 10 \<longrightarrow>
        a_div r = Some ((of_int v - 5.5) / 4.5)) \<and>
   (\<forall>e. py_int (v155 r) = Inl e \<and> v155 r \<noteq> Str ''never'' \<and> v155 r \<noteq> Str ''always'' \<longrightarrow>
        a_div r = None)"
proof (intro conjI allI impI)
  assume "v155 r = Str ''never''"
  then show "a_div r = Some (- 1)" by (simp add: a_div_def)
next
  assume "v155 r = Str ''always''"
  then show "a_div r = Some 1" by (simp add: a_div_def)
next
  fix v assume "py_int (v155 r) = Inr v \<and> 1 \<le> v \<and> v \<le> 10"
  then show "a_div r = Some ((of_int v - 5.5) / 4.5)" by (simp add: a_div_parsed)
next
  fix e assume "py_int (v155 r) = Inl e \<and> v155 r \<noteq> Str ''never'' \<and> v155 r \<noteq> Str ''always''"
  then show "a_div r = None" by (simp add: a_div_unparsed)
qed

theorem a_div_cases_witness:
  "a_div \<lparr>c_abrv = ''ES'', caseno = 1, v6 = NaN, v82 = NaN, v155 = Str ''never''\<rparr> = Some (- 1)
   \<and> a_div \<lparr>c_abrv = ''ES'', caseno = 1, v6 = NaN, v82 = NaN, v155 = Str ''always''\<rparr> = Some 1
   \<and> a_div \<lparr>c_abrv = ''ES'', caseno = 1, v6 = NaN, v82 = NaN, v155 = Str ''7''\<rparr> = Some ((7 - 5.5) / 4.5)
   \<and> a_div \<lparr>c_abrv = ''ES'', caseno = 1, v6 = NaN, v82 = NaN, v155 = PyFloat 7\<rparr> = Some ((7 - 5.5) / 4.5)
   \<and> a_div \<lparr>c_abrv = ''ES'', caseno = 1, v6 = NaN, v82 = NaN, v155 = Str ''no answer''\<rparr> = None
   \<and> a_div \<lparr>c_abrv = ''ES'', caseno = 1, v6 = NaN, v82 = NaN, v155 = NaN\<rparr> = None"
  using a_div_cases [of "\<lparr>c_abrv = ''ES'', caseno = 1, v6 = NaN, v82 = NaN, v155 = Str ''never''\<rparr>"]
    a_div_cases [of "\<lparr>c_abrv = ''ES'', caseno = 1, v6 = NaN, v82 = NaN, v155 = Str ''always''\<rparr>"]
    a_div_cases [of "\<lparr>c_abrv = ''ES'', caseno = 1, v6 = NaN, v82 = NaN, v155 = Str ''7''\<rparr>"]
    a_div_cases [of "\<lparr>c_abrv = ''ES'', caseno = 1, v6 = NaN, v82 = NaN, v155 = PyFloat 7\<rparr>"]
    a_div_cases [of "\<lparr>c_abrv = ''ES'', caseno = 1, v6 = NaN, v82 = NaN, v155 = Str ''no answer''\<rparr>"]
    a_div_cases [of "\<lparr>c_abrv = ''ES'', caseno = 1, v6 = NaN, v82 = NaN, v155 = NaN\<rparr>"]
  by (simp add: int_parse_defs)

text \<open>
  Claim C4: in \<open>a_adp\<close> the five categories have the ranks 1 to 5, the score of a
  ranked answer is \<open>- (rank - 3) / 2\<close>, so the five scores are \<open>1\<close>, \<open>0.5\<close>, \<open>0\<close>,
  \<open>- 0.5\<close> and \<open>- 1\<close> in this order, and every other answer, the missing value
  included, gives the missing score \<open>None\<close> and not \<open>0\<close>.
\<close>

theorem a_adp_ranks:
  "category_dic (v82 r) =
     (if v82 r = Str ''agree strongly'' then Some 1
      else if v82 r = Str ''agree'' then Some 2
      else if v82 r = Str ''neither agree nor disagree'' then Some 3
      else if v82 r = Str ''disagree'' then Some 4
      else if v82 r = Str ''disagree strongly'' then Some 5
      else None)
   \<and> a_adp r = map_option (\<lambda>rank. - (of_int rank - 3) / 2) (category_dic (v82 r))
   \<and> a_adp r =
     (if v82 r = Str ''agree strongly'' then Some 1
      else if v82 r = Str ''agree'' then Some 0.5
      else if v82 r = Str ''neither agree nor disagree'' then Some 0
      else if v82 r = Str ''disagree'' then Some (- 0.5)
      else if v82 r = Str ''disagree strongly'' then Some (- 1)
      else None)"
  by (simp add: a_adp_def category_dic_def)

theorem a_adp_ranks_witness:
  "a_adp \<lparr>c_abrv = ''ES'', caseno = 1, v6 = NaN, v82 = Str ''agree'', v155 = NaN\<rparr> = Some 0.5
   \<and> a_adp \<lparr>c_abrv = ''ES'', caseno = 1, v6 = NaN, v82 = Str ''disagree strongly'', v155 = NaN\<rparr> = Some (- 1)
   \<and> a_adp \<lparr>c_abrv = ''ES'', caseno = 1, v6 = NaN, v82 = Str ''no answer'', v155 = NaN\<rparr> = None
   \<and> a_adp \<lparr>c_abrv = ''ES'', caseno = 1, v6 = NaN, v82 = NaN, v155 = NaN\<rparr> = None"
  using a_adp_ranks [of "\<lparr>c_abrv = ''ES'', caseno = 1, v6 = NaN, v82 = Str ''agree'', v155 = NaN\<rparr>"]
    a_adp_ranks [of "\<lparr>c_abrv = ''ES'', caseno = 1, v6 = NaN, v82 = Str ''disagree strongly'', v155 = NaN\<rparr>"]
    a_adp_ranks [of "\<lparr>c_abrv = ''ES'', caseno = 1, v6 = NaN, v82 = Str ''no answer'', v155 = NaN\<rparr>"]
    a_adp_ranks [of "\<lparr>c_abrv = ''ES'', caseno = 1, v6 = NaN, v82 = NaN, v155 = NaN\<rparr>"]
  by simp

section \<open>The country aggregate: closed form\<close>


lemma process_participant_find:
  "process_participant df cn =
     (case find (\<lambda>r. caseno r = cn) df of
        None \<Rightarrow> Inl IndexError
      | Some r \<Rightarrow> Inr (participant_tuple r))"
  by (induction df) (simp_all add: process_participant_def)

lemma find_caseno_member: "r \<in> set df \<Longrightarrow> find (\<lambda>q. caseno q = caseno r) df \<noteq> None"
  by (auto simp: find_None_iff)

lemma process_participant_member:
  "r \<in> set df \<Longrightarrow> process_participant df (caseno r) = Inr (participant_tuple (first_match df r))"
  using find_caseno_member [of r df]
  by (auto simp: process_participant_find first_match_def split: option.splits)

lemma first_match_member: "r \<in> set df \<Longrightarrow> first_match df r \<in> set df"
  by (auto simp: first_match_def find_Some_iff split: option.splits)

lemma first_match_caseno: "caseno (first_match df r) = caseno r"
  by (auto simp: first_match_def find_Some_iff split: option.splits)

lemma first_match_distinct:
  "distinct (map caseno df) \<Longrightarrow> r \<in> set df \<Longrightarrow> first_match df r = r"
  using first_match_member [of r df] first_match_caseno [of df r]
  by (metis distinct_map inj_onD)

lemma country_loop_foldl:
  "set rs \<subseteq> set df \<Longrightarrow>
   country_loop df rs s =
     Inr (foldl count_tuple s (map (\<lambda>r. participant_tuple (first_match df r)) rs))"
  by (induction rs arbitrary: s) (simp_all add: process_participant_member)

lemma scores_single_None:
  "group_count g [None] = 0" "adp_scores g [None] = []" "div_scores g [None] = []"
  by (simp_all add: group_count_def adp_scores_def div_scores_def map_filter_def)

lemma scores_single_Some:
  "group_count g [Some (b, a, d)] = (if b = g then 1 else 0)"
  "adp_scores g [Some (b, a, d)] = (if b = g then (case a of None \<Rightarrow> [] | Some x \<Rightarrow> [x]) else [])"
  "div_scores g [Some (b, a, d)] = (if b = g then (case d of None \<Rightarrow> [] | Some x \<Rightarrow> [x]) else [])"
  by (simp_all add: group_count_def adp_scores_def div_scores_def map_filter_def
      split: option.splits)

lemma count_tuple_fields:
  "n_religious (count_tuple s t) = n_religious s + group_count True [t] \<and>
   n_nonreligious (count_tuple s t) = n_nonreligious s + group_count False [t] \<and>
   n_rel_adp (count_tuple s t) = n_rel_adp s + length (adp_scores True [t]) \<and>
   n_nonrel_adp (count_tuple s t) = n_nonrel_adp s + length (adp_scores False [t]) \<and>
   n_rel_div (count_tuple s t) = n_rel_div s + length (div_scores True [t]) \<and>
   n_nonrel_div (count_tuple s t) = n_nonrel_div s + length (div_scores False [t]) \<and>
   sum_a_adp_rel (count_tuple s t) = sum_a_adp_rel s + sum_list (adp_scores True [t]) \<and>
   sum_a_adp_nonrel (count_tuple s t) = sum_a_adp_nonrel s + sum_list (adp_scores False [t]) \<and>
   sum_a_div_rel (count_tuple s t) = sum_a_div_rel s + sum_list (div_scores True [t]) \<and>
   sum_a_div_nonrel (count_tuple s t) = sum_a_div_nonrel s + sum_list (div_scores False [t])"
proof (cases t)
  case None
  then show ?thesis by (simp add: scores_single_None)
next
  case (Some p)
  obtain b a d where "p = (b, a, d)" by (cases p) auto
  with Some show ?thesis
    by (simp add: scores_single_Some add_adp_rel_def add_div_rel_def add_adp_nonrel_def
        add_div_nonrel_def split: option.splits)
qed

lemma group_count_Cons: "group_count g (t # ts) = group_count g [t] + group_count g ts"
  by (simp add: group_count_def)

lemma adp_scores_Cons: "adp_scores g (t # ts) = adp_scores g [t] @ adp_scores g ts"
  by (simp add: adp_scores_def map_filter_def)

lemma div_scores_Cons: "div_scores g (t # ts) = div_scores g [t] @ div_scores g ts"
  by (simp add: div_scores_def map_filter_def)

lemma scores_Nil [simp]:
  "group_count g [] = 0" "adp_scores g [] = []" "div_scores g [] = []"
  by (simp_all add: group_count_def adp_scores_def div_scores_def map_filter_def)

lemma foldl_count_tuple_fields:
  "n_religious (foldl count_tuple s ts) = n_religious s + group_count True ts"
  "n_nonreligious (foldl count_tuple s ts) = n_nonreligious s + group_count False ts"
  "n_rel_adp (foldl count_tuple s ts) = n_rel_adp s + length (adp_scores True ts)"
  "n_nonrel_adp (foldl count_tuple s ts) = n_nonrel_adp s + length (adp_scores False ts)"
  "n_rel_div (foldl count_tuple s ts) = n_rel_div s + length (div_scores True ts)"
  "n_nonrel_div (foldl count_tuple s ts) = n_nonrel_div s + length (div_scores False ts)"
  "sum_a_adp_rel (foldl count_tuple s ts) = sum_a_adp_rel s + sum_list (adp_scores True ts)"
  "sum_a_adp_nonrel (foldl count_tuple s ts) = sum_a_adp_nonrel s + sum_list (adp_scores False ts)"
  "sum_a_div_rel (foldl count_tuple s ts) = sum_a_div_rel s + sum_list (div_scores True ts)"
  "sum_a_div_nonrel (foldl count_tuple s ts) = sum_a_div_nonrel s + sum_list (div_scores False ts)"
proof (induction ts arbitrary: s)
  case Nil
  {
    case 1 show ?case by simp next
    case 2 show ?case by simp next
    case 3 show ?case by simp next
    case 4 show ?case by simp next
    case 5 show ?case by simp next
    case 6 show ?case by simp next
    case 7 show ?case by simp next
    case 8 show ?case by simp next
    case 9 show ?case by simp next
    case 10 show ?case by simp
  }
next
  case (Cons t ts)
  {
    case 1 show ?case
      by (simp add: Cons.IH(1) count_tuple_fields group_count_Cons [of _ t ts]) next
    case 2 show ?case
      by (simp add: Cons.IH(2) count_tuple_fields group_count_Cons [of _ t ts]) next
    case 3 show ?case
      by (simp add: Cons.IH(3) count_tuple_fields adp_scores_Cons [of _ t ts]) next
    case 4 show ?case
      by (simp add: Cons.IH(4) count_tuple_fields adp_scores_Cons [of _ t ts]) next
    case 5 show ?case
      by (simp add: Cons.IH(5) count_tuple_fields div_scores_Cons [of _ t ts]) next
    case 6 show ?case
      by (simp add: Cons.IH(6) count_tuple_fields div_scores_Cons [of _ t ts]) next
    case 7 show ?case
      by (simp add: Cons.IH(7) count_tuple_fields adp_scores_Cons [of _ t ts]) next
    case 8 show ?case
      by (simp add: Cons.IH(8) count_tuple_fields adp_scores_Cons [of _ t ts]) next
    case 9 show ?case
      by (simp add: Cons.IH(9) count_tuple_fields div_scores_Cons [of _ t ts]) next
    case 10 show ?case
      by (simp add: Cons.IH(10) count_tuple_fields div_scores_Cons [of _ t ts])
  }
qed

lemma country_dict_foldl:
  "country_dict (foldl count_tuple zero_counters ts) = spec_aggregate ts"
proof -
  have fields:
    "n_religious (foldl count_tuple zero_counters ts) = group_count True ts"
    "n_nonreligious (foldl count_tuple zero_counters ts) = group_count False ts"
    "n_rel_adp (foldl count_tuple zero_counters ts) = length (adp_scores True ts)"
    "n_nonrel_adp (foldl count_tuple zero_counters ts) = length (adp_scores False ts)"
    "n_rel_div (foldl count_tuple zero_counters ts) = length (div_scores True ts)"
    "n_nonrel_div (foldl count_tuple zero_counters ts) = length (div_scores False ts)"
    "sum_a_adp_rel (foldl count_tuple zero_counters ts) = sum_list (adp_scores True ts)"
    "sum_a_adp_nonrel (foldl count_tuple zero_counters ts) = sum_list (adp_scores False ts)"
    "sum_a_div_rel (foldl count_tuple zero_counters ts) = sum_list (div_scores True ts)"
    "sum_a_div_nonrel (foldl count_tuple zero_counters ts) = sum_list (div_scores False ts)"
    by (simp_all add: foldl_count_tuple_fields zero_counters_def)
  show ?thesis
    unfolding country_dict_def spec_aggregate_def mean_def fields by (rule refl)
qed


lemma process_country_closed:
  "process_country df c =
     spec_aggregate (map (\<lambda>r. participant_tuple (first_match (country_frame df c) r))
                      (country_frame df c))"
  by (simp add: process_country_def Let_def country_loop_foldl country_dict_foldl)

section \<open>Respondent lookup\<close>

text \<open>
  Claim C9: \<open>process_participant\<close> classifies the first row of the frame with the given
  case number; when no row has that number it raises \<^verbatim>\<open>IndexError\<close>, it raises
  nothing else, and it returns an answer whenever the number occurs in the frame.
\<close>

theorem process_participant_lookup:
  "process_participant df cn =
     (case find (\<lambda>r. caseno r = cn) df of
        None \<Rightarrow> Inl IndexError
      | Some r \<Rightarrow> Inr (participant_tuple r))
   \<and> (cn \<notin> caseno ` set df \<longrightarrow> process_participant df cn = Inl IndexError)
   \<and> (cn \<in> caseno ` set df \<longrightarrow> (\<exists>t. process_participant df cn = Inr t))
   \<and> (process_participant df cn = Inl e \<longleftrightarrow> e = IndexError \<and> cn \<notin> caseno ` set df)"
proof -
  have none: "find (\<lambda>r. caseno r = cn) df = None \<longleftrightarrow> cn \<notin> caseno ` set df"
    by (auto simp: find_None_iff)
  show ?thesis
    using none
    by (cases "find (\<lambda>r. caseno r = cn) df") (auto simp: process_participant_find)
qed

theorem process_participant_lookup_witness:
  "process_participant full_frame 7 = Inl IndexError
   \<and> (\<exists>t. process_participant full_frame 2 = Inr t)"
proof -
  have "(7::int) \<notin> caseno ` set full_frame" "(2::int) \<in> caseno ` set full_frame"
    by (simp_all add: full_frame_def)
  then show ?thesis
    using process_participant_lookup [of full_frame 7] process_participant_lookup [of full_frame 2]
    by blast
qed

section \<open>Zero denominators\<close>

lemma adp_scores_empty:
  "(\<forall>t \<in> set ts. case t of None \<Rightarrow> True | Some (b, a, d) \<Rightarrow> b = g \<longrightarrow> a = None)
   \<Longrightarrow> adp_scores g ts = []"
  by (induction ts) (auto simp: adp_scores_def map_filter_def split: option.splits)

lemma div_scores_empty:
  "(\<forall>t \<in> set ts. case t of None \<Rightarrow> True | Some (b, a, d) \<Rightarrow> b = g \<longrightarrow> d = None)
   \<Longrightarrow> div_scores g ts = []"
  by (induction ts) (auto simp: div_scores_def map_filter_def split: option.splits)

lemma mean_Nil: "mean [] = Inl ZeroDivisionError"
  by (simp add: mean_def py_div_def)

lemma mean_error: "mean xs = Inl e \<Longrightarrow> e = ZeroDivisionError"
  by (auto simp: mean_def py_div_def split: if_splits)

lemma spec_aggregate_error: "spec_aggregate ts = Inl e \<Longrightarrow> e = ZeroDivisionError"
  by (auto simp: spec_aggregate_def split: sum.splits dest: mean_error)

lemma spec_aggregate_empty:
  assumes "adp_scores True ts = [] \<or> adp_scores False ts = [] \<or>
           div_scores True ts = [] \<or> div_scores False ts = []"
  shows "spec_aggregate ts = Inl ZeroDivisionError"
proof (cases "spec_aggregate ts")
  case (Inl e)
  then show ?thesis using spec_aggregate_error by simp
next
  case (Inr res)
  then have "mean (adp_scores True ts) \<noteq> Inl ZeroDivisionError"
    "mean (adp_scores False ts) \<noteq> Inl ZeroDivisionError"
    "mean (div_scores True ts) \<noteq> Inl ZeroDivisionError"
    "mean (div_scores False ts) \<noteq> Inl ZeroDivisionError"
    by (auto simp: spec_aggregate_def split: sum.splits)
  with assms show ?thesis using mean_Nil by auto
qed

lemma looked_up_rows:
  "set (map (\<lambda>r. participant_tuple (first_match df r)) df) \<subseteq> participant_tuple ` set df"
  using first_match_member by auto

text \<open>
  Claim C1: the four means are quotients of a sum by a counter with no test of the
  counter. So when, for some group and some score type, no respondent of the country
  is in the group with that score present, \<open>process_country\<close> raises
  \<^verbatim>\<open>ZeroDivisionError\<close> and returns no aggregate; and a division by zero is the only
  way \<open>process_country\<close> fails.
\<close>

theorem zero_denominator_raises:
  "((\<exists>g adp. \<forall>r \<in> set (country_frame df c). \<not> contributes g adp r)
      \<longrightarrow> process_country df c = Inl ZeroDivisionError)
   \<and> (process_country df c = Inl e \<longrightarrow> e = ZeroDivisionError)"
proof (intro conjI impI)
  let ?F = "country_frame df c"
  let ?ts = "map (\<lambda>r. participant_tuple (first_match ?F r)) ?F"
  assume "\<exists>g adp. \<forall>r \<in> set ?F. \<not> contributes g adp r"
  then obtain g adp where no: "\<forall>r \<in> set ?F. \<not> contributes g adp r" by blast
  have sub: "set ?ts \<subseteq> participant_tuple ` set ?F" by (rule looked_up_rows)
  have "adp_scores g ?ts = [] \<or> div_scores g ?ts = []"
  proof (cases adp)
    case True
    have "\<forall>t \<in> set ?ts. case t of None \<Rightarrow> True | Some (b, a, d) \<Rightarrow> b = g \<longrightarrow> a = None"
    proof
      fix t assume "t \<in> set ?ts"
      with sub obtain r where "r \<in> set ?F" "t = participant_tuple r" by auto
      with no True show "case t of None \<Rightarrow> True | Some (b, a, d) \<Rightarrow> b = g \<longrightarrow> a = None"
        by (auto simp: contributes_def split: option.splits)
    qed
    then show ?thesis using adp_scores_empty by blast
  next
    case False
    have "\<forall>t \<in> set ?ts. case t of None \<Rightarrow> True | Some (b, a, d) \<Rightarrow> b = g \<longrightarrow> d = None"
    proof
      fix t assume "t \<in> set ?ts"
      with sub obtain r where "r \<in> set ?F" "t = participant_tuple r" by auto
      with no False show "case t of None \<Rightarrow> True | Some (b, a, d) \<Rightarrow> b = g \<longrightarrow> d = None"
        by (auto simp: contributes_def split: option.splits)
    qed
    then show ?thesis using div_scores_empty by blast
  qed
  then have "adp_scores True ?ts = [] \<or> adp_scores False ?ts = [] \<or>
             div_scores True ?ts = [] \<or> div_scores False ?ts = []"
    by (cases g) auto
  then show "process_country df c = Inl ZeroDivisionError"
    by (simp only: process_country_closed spec_aggregate_empty)
next
  assume "process_country df c = Inl e"
  then show "e = ZeroDivisionError"
    by (simp only: process_country_closed spec_aggregate_error)
qed


lemmas classify_defs =
  participant_tuple_def religious_flag_def a_adp_def a_div_def category_dic_def

theorem zero_denominator_raises_witness:
  "filter (contributes False True) (country_frame (es_frame NaN NaN NaN) ''ES'') = []
   \<and> process_country (es_frame NaN NaN NaN) ''ES'' = Inl ZeroDivisionError"
proof -
  have h: "filter (contributes False True) (country_frame (es_frame NaN NaN NaN) ''ES'') = []"
    by (simp add: country_frame_def es_frame_def contributes_def classify_defs)
  then have "\<forall>r \<in> set (country_frame (es_frame NaN NaN NaN) ''ES''). \<not> contributes False True r"
    by (simp only: filter_empty_conv)
  then have "\<exists>g adp. \<forall>r \<in> set (country_frame (es_frame NaN NaN NaN) ''ES''). \<not> contributes g adp r"
    by blast
  with h show ?thesis
    using zero_denominator_raises [of "es_frame NaN NaN NaN" "''ES''"] by blast
qed

section \<open>Group counts\<close>

lemma length_filter_eq_length: "length (filter P xs) = length xs \<longleftrightarrow> (\<forall>x \<in> set xs. P x)"
proof (induction xs)
  case Nil
  then show ?case by simp
next
  case (Cons x xs)
  have "length (filter P xs) \<noteq> Suc (length xs)"
    by (metis Suc_n_not_le_n length_filter_le)
  with Cons show ?case by auto
qed

lemma group_count_sum:
  "group_count True ts + group_count False ts = length (filter (\<lambda>t. t \<noteq> None) ts)"
  by (induction ts) (auto simp: group_count_def)

lemma spec_aggregate_counts:
  "spec_aggregate ts = Inr res \<Longrightarrow> rel res = group_count True ts \<and> nonrel res = group_count False ts"
  by (auto simp: spec_aggregate_def split: sum.splits)

lemma group_count_map:
  "group_count g (map f rs) = length (filter (\<lambda>r. map_option fst (f r) = Some g) rs)"
  by (induction rs) (simp_all add: group_count_def)

lemma participant_tuple_None: "participant_tuple r = None \<longleftrightarrow> religious_flag (v6 r) = None"
  by (simp add: participant_tuple_def split: option.splits)

text \<open>
  Claim C6: when \<open>process_country\<close> returns, \<open>rel\<close> and \<open>nonrel\<close> count the rows of the
  country whose classifier call answers ``religious'' and ``non-religious'', whatever
  the two scores are; their sum is at most the number of rows of the country, and it
  is that number exactly when no classifier call answers \<open>None\<close>. With case numbers
  distinct within the country (as the data model has them) this is: exactly when no row
  of the country has an undetermined religiosity.
\<close>

theorem counts_le_respondents:
  assumes "process_country df c = Inr res"
  shows "rel res = length (filter (\<lambda>r. \<exists>a d. process_participant (country_frame df c) (caseno r)
                                    = Inr (Some (True, a, d))) (country_frame df c))
    \<and> nonrel res = length (filter (\<lambda>r. \<exists>a d. process_participant (country_frame df c) (caseno r)
                                    = Inr (Some (False, a, d))) (country_frame df c))
    \<and> rel res + nonrel res \<le> length (country_frame df c)
    \<and> (rel res + nonrel res = length (country_frame df c) \<longleftrightarrow>
         (\<forall>r \<in> set (country_frame df c).
            process_participant (country_frame df c) (caseno r) \<noteq> Inr None))
    \<and> (distinct (map caseno (country_frame df c)) \<longrightarrow>
         (rel res + nonrel res = length (country_frame df c) \<longleftrightarrow>
           (\<forall>r \<in> set (country_frame df c). religious_flag (v6 r) \<noteq> None)))"
proof -
  let ?F = "country_frame df c"
  let ?f = "\<lambda>r. participant_tuple (first_match ?F r)"
  have pp: "process_participant ?F (caseno r) = Inr (?f r)" if "r \<in> set ?F" for r
    using that by (rule process_participant_member)
  from assms have agg: "spec_aggregate (map ?f ?F) = Inr res"
    by (simp only: process_country_closed)
  then have counts: "rel res = group_count True (map ?f ?F)"
    "nonrel res = group_count False (map ?f ?F)"
    using spec_aggregate_counts by blast+
  have grp: "length (filter (\<lambda>r. \<exists>a d. process_participant ?F (caseno r) = Inr (Some (g, a, d))) ?F)
      = group_count g (map ?f ?F)" for g
  proof -
    have "(\<exists>a d. process_participant ?F (caseno r) = Inr (Some (g, a, d)))
          \<longleftrightarrow> map_option fst (?f r) = Some g" if "r \<in> set ?F" for r
      using pp [OF that] by auto
    then have "filter (\<lambda>r. \<exists>a d. process_participant ?F (caseno r) = Inr (Some (g, a, d))) ?F
          = filter (\<lambda>r. map_option fst (?f r) = Some g) ?F"
      by (intro filter_cong) auto
    then show ?thesis by (simp only: group_count_map)
  qed
  have total: "rel res + nonrel res = length (filter (\<lambda>r. ?f r \<noteq> None) ?F)"
    using group_count_sum [of "map ?f ?F"] counts by (simp add: filter_map o_def)
  have le: "rel res + nonrel res \<le> length ?F"
    unfolding total by simp
  have eq: "rel res + nonrel res = length ?F \<longleftrightarrow> (\<forall>r \<in> set ?F. ?f r \<noteq> None)"
    unfolding total by (rule length_filter_eq_length)
  have eq_call: "(\<forall>r \<in> set ?F. ?f r \<noteq> None)
      \<longleftrightarrow> (\<forall>r \<in> set ?F. process_participant ?F (caseno r) \<noteq> Inr None)"
    using pp by auto
  have eq_row: "(\<forall>r \<in> set ?F. ?f r \<noteq> None) \<longleftrightarrow> (\<forall>r \<in> set ?F. religious_flag (v6 r) \<noteq> None)"
    if "distinct (map caseno ?F)"
    using first_match_distinct [OF that] by (auto simp: participant_tuple_None)
  show ?thesis
    using counts grp le eq eq_call eq_row by simp
qed


lemmas aggregate_defs =
  process_country_def country_frame_def process_participant_def classify_defs int_parse_defs
  add_adp_rel_def add_div_rel_def add_adp_nonrel_def add_div_nonrel_def zero_counters_def
  country_dict_def py_div_def

lemma full_frame_ES:
  "process_country full_frame ''ES'' =
     Inr \<lparr>rel = 1, nonrel = 1, a_adp_rel = 1 / 2, a_adp_nonrel = 1,
          a_div_rel = - 1, a_div_nonrel = - (1 / 9)\<rparr>"
  by (simp add: full_frame_def aggregate_defs)

lemma full_frame_FR:
  "process_country full_frame ''FR'' =
     Inr \<lparr>rel = 1, nonrel = 1, a_adp_rel = - (1 / 2), a_adp_nonrel = 1 / 2,
          a_div_rel = - (5 / 9), a_div_nonrel = 1\<rparr>"
  by (simp add: full_frame_def aggregate_defs)

theorem counts_le_respondents_witness:
  "process_country full_frame ''ES'' =
     Inr \<lparr>rel = 1, nonrel = 1, a_adp_rel = 1 / 2, a_adp_nonrel = 1,
          a_div_rel = - 1, a_div_nonrel = - (1 / 9)\<rparr>
   \<and> distinct (map caseno (country_frame full_frame ''ES''))
   \<and> (1::nat) + 1 \<le> length (country_frame full_frame ''ES'')
   \<and> (1::nat) + 1 \<noteq> length (country_frame full_frame ''ES'')
   \<and> \<not> (\<forall>r \<in> set (country_frame full_frame ''ES''). religious_flag (v6 r) \<noteq> None)"
proof -
  have d: "distinct (map caseno (country_frame full_frame ''ES''))"
    by (simp add: country_frame_def full_frame_def)
  have n: "length (country_frame full_frame ''ES'') = 3"
    by (simp add: country_frame_def full_frame_def)
  show ?thesis
    using counts_le_respondents [OF full_frame_ES] d n full_frame_ES by simp
qed

section \<open>The ES scenario\<close>

text \<open>
  Claim C7, on the code: in the scenario the non-religious group has no adoption score,
  so the quotient for \<open>a_adp_nonrel\<close> is \<open>0 / 0\<close> and \<open>process_country\<close> raises
  \<^verbatim>\<open>ZeroDivisionError\<close>: it returns no aggregate and reports no mean as missing.
\<close>

theorem es_scenario_raises:
  "process_country (es_frame (Str ''dont know'') (Str ''agree'') (PyInt 3)) ''ES''
     = Inl ZeroDivisionError"
  by (simp add: es_frame_def aggregate_defs)

text \<open>
  Claim C7, amended: for every third respondent whose religiosity is undetermined,
  the loop of \<open>process_country\<close> ends with the counts \<open>rel = 1\<close> and \<open>nonrel = 1\<close>, the
  religious adoption sum \<open>0.5\<close> over one contributor, the religious divorce sum \<open>- 1\<close>
  over one, the non-religious divorce sum \<open>(5 - 5.5) / 4.5\<close> over one and no
  non-religious adoption contributor; the quotients \<open>a_adp_rel\<close>, \<open>a_div_rel\<close> and
  \<open>a_div_nonrel\<close> would be \<open>0.5\<close>, \<open>- 1\<close> and \<open>(5 - 5.5) / 4.5\<close>, the quotient
  \<open>a_adp_nonrel\<close> is a \<^verbatim>\<open>ZeroDivisionError\<close>, and so is the call.
\<close>

theorem es_scenario_counters:
  assumes "religious_flag u = None"
  shows "country_frame (es_frame u a d) ''ES'' = es_frame u a d
    \<and> country_loop (es_frame u a d) (es_frame u a d) zero_counters =
        Inr \<lparr>n_religious = 1, n_nonreligious = 1, n_rel_adp = 1, n_nonrel_adp = 0,
             n_rel_div = 1, n_nonrel_div = 1, sum_a_adp_rel = 0.5, sum_a_adp_nonrel = 0,
             sum_a_div_rel = - 1, sum_a_div_nonrel = (5 - 5.5) / 4.5\<rparr>
    \<and> py_div 0.5 1 = Inr 0.5
    \<and> py_div 0 0 = Inl ZeroDivisionError
    \<and> py_div (- 1) 1 = Inr (- 1)
    \<and> py_div ((5 - 5.5) / 4.5) 1 = Inr ((5 - 5.5) / 4.5)
    \<and> process_country (es_frame u a d) ''ES'' = Inl ZeroDivisionError"
proof -
  have third: "participant_tuple \<lparr>c_abrv = ''ES'', caseno = 3, v6 = u, v82 = a, v155 = d\<rparr> = None"
    using assms by (simp add: participant_tuple_def)
  have frame: "country_frame (es_frame u a d) ''ES'' = es_frame u a d"
    by (simp add: country_frame_def es_frame_def)
  have loop: "country_loop (es_frame u a d) (es_frame u a d) zero_counters =
        Inr \<lparr>n_religious = 1, n_nonreligious = 1, n_rel_adp = 1, n_nonrel_adp = 0,
             n_rel_div = 1, n_nonrel_div = 1, sum_a_adp_rel = 0.5, sum_a_adp_nonrel = 0,
             sum_a_div_rel = - 1, sum_a_div_nonrel = (5 - 5.5) / 4.5\<rparr>"
    unfolding es_frame_def
    by (simp add: process_participant_def third zero_counters_def)
       (simp add: classify_defs int_parse_defs add_adp_rel_def add_div_rel_def
          add_adp_nonrel_def add_div_nonrel_def)
  have raise: "process_country (es_frame u a d) ''ES'' = Inl ZeroDivisionError"
    by (simp add: process_country_def frame loop country_dict_def py_div_def)
  show ?thesis
    using frame loop raise by (simp add: py_div_def)
qed

theorem es_scenario_counters_witness:
  "religious_flag (Str ''dont know'') = None
   \<and> process_country (es_frame (Str ''dont know'') NaN (Str ''7'')) ''ES'' = Inl ZeroDivisionError
   \<and> country_loop (es_frame (Str ''dont know'') NaN (Str ''7''))
        (es_frame (Str ''dont know'') NaN (Str ''7'')) zero_counters =
        Inr \<lparr>n_religious = 1, n_nonreligious = 1, n_rel_adp = 1, n_nonrel_adp = 0,
             n_rel_div = 1, n_nonrel_div = 1, sum_a_adp_rel = 0.5, sum_a_adp_nonrel = 0,
             sum_a_div_rel = - 1, sum_a_div_nonrel = (5 - 5.5) / 4.5\<rparr>"
proof -
  have h: "religious_flag (Str ''dont know'') = None"
    by (simp add: religious_flag_def)
  show ?thesis
    using h es_scenario_counters [OF h, of NaN "Str ''7''"] by simp
qed

end
